theory Spec2Isabelle
  imports Main "HOL-Library.AList"
begin

section \<open>Python values, dictionaries and errors\<close>

text \<open>
  The pipeline of \<^verbatim>\<open>src/transformers/pipelines/text_to_speech.py\<close> handles untyped
  Python values: the conditioning value (absent, a preset name, a vector, a named mapping
  of arrays), the tokenized text, sampling rates. Tensors are nested lists: the length of a
  batch is the length of the outer list, and indexing with 0 takes the first row.
\<close>

datatype pyval =
    PNone
  | PInt int
  | PStr string
  | PList "pyval list"
  | PDict "(string \<times> pyval) list"

text \<open>A Python \<^verbatim>\<open>dict\<close> with string keys (keyword arguments, model inputs, configurations),
  in insertion order.\<close>

type_synonym dict = "(string \<times> pyval) list"

datatype value_error =
    PyTorchOnly       \<comment> \<open>"The TextToSpeechPipeline is only available in PyTorch."\<close>
  | VocoderIsNone     \<comment> \<open>"vocoder is None but speecht5 is used. ..."\<close>
  | VocoderNotValid   \<comment> \<open>"Must pass a valid vocoder to the TTSPipeline if speecht5 is used. ..."\<close>

datatype error =
    ValueError value_error
  | TypeError
  | KeyError
  | IndexError
  | AttributeError
  | CollaboratorError string  \<comment> \<open>a failure raised inside an external collaborator\<close>

text \<open>\<^verbatim>\<open>d[k]\<close> on a dict: \<^verbatim>\<open>KeyError\<close> when the key is missing.\<close>

definition dict_getitem :: "dict \<Rightarrow> string \<Rightarrow> error + pyval" where
  "dict_getitem d k = (case map_of d k of None \<Rightarrow> Inl KeyError | Some v \<Rightarrow> Inr v)"

text \<open>\<^verbatim>\<open>d.get(k, default)\<close>.\<close>

definition dict_get :: "dict \<Rightarrow> string \<Rightarrow> pyval \<Rightarrow> pyval" where
  "dict_get d k dflt = (case map_of d k of None \<Rightarrow> dflt | Some v \<Rightarrow> v)"

text \<open>\<^verbatim>\<open>d.update(other)\<close>: every pair of \<open>other\<close> is stored into \<open>d\<close>, in order.\<close>

definition dict_update :: "dict \<Rightarrow> dict \<Rightarrow> dict" where
  "dict_update d other = foldl (\<lambda>acc (k, v). AList.update k v acc) d other"

text \<open>\<^verbatim>\<open>f(**a, **b)\<close>: a key given twice is a \<^verbatim>\<open>TypeError\<close> (multiple values for a keyword
  argument); otherwise the callee receives both mappings.\<close>

definition call_kwargs :: "dict \<Rightarrow> dict \<Rightarrow> error + dict" where
  "call_kwargs a b =
     (if list_ex (\<lambda>k. k \<in> set (map fst b)) (map fst a) then Inl TypeError else Inr (a @ b))"

text \<open>\<^verbatim>\<open>len(v)\<close>.\<close>

fun py_len :: "pyval \<Rightarrow> error + nat" where
  "py_len (PList xs) = Inr (length xs)"
| "py_len (PStr s) = Inr (length s)"
| "py_len (PDict d) = Inr (length d)"
| "py_len PNone = Inl TypeError"
| "py_len (PInt i) = Inl TypeError"

text \<open>\<^verbatim>\<open>v[i]\<close> for an index \<open>i \<ge> 0\<close>: the element of a sequence (\<^verbatim>\<open>IndexError\<close> out of
  range), the one-character string of a string, \<^verbatim>\<open>KeyError\<close> on a mapping with string
  keys, \<^verbatim>\<open>TypeError\<close> on a value that is not subscriptable.\<close>

fun py_index :: "pyval \<Rightarrow> nat \<Rightarrow> error + pyval" where
  "py_index (PList xs) i = (if i < length xs then Inr (xs ! i) else Inl IndexError)"
| "py_index (PStr s) i = (if i < length s then Inr (PStr [s ! i]) else Inl IndexError)"
| "py_index (PDict d) i = Inl KeyError"
| "py_index PNone i = Inl TypeError"
| "py_index (PInt n) i = Inl TypeError"

text \<open>\<^verbatim>\<open>v[k]\<close> for a string key \<open>k\<close>.\<close>

fun py_key :: "pyval \<Rightarrow> string \<Rightarrow> error + pyval" where
  "py_key (PDict d) k = dict_getitem d k"
| "py_key (PList xs) k = Inl TypeError"
| "py_key (PStr s) k = Inl TypeError"
| "py_key PNone k = Inl TypeError"
| "py_key (PInt n) k = Inl TypeError"

section \<open>External collaborators\<close>

text \<open>A \<^verbatim>\<open>SpeechT5HifiGan\<close> instance: its \<^verbatim>\<open>config.sampling_rate\<close> and the device it is on.\<close>

record hifigan =
  hg_sampling_rate :: pyval
  hg_device :: string

text \<open>\<^verbatim>\<open>vocoder.to(device)\<close>.\<close>

definition hifigan_to :: "hifigan \<Rightarrow> string \<Rightarrow> hifigan" where
  "hifigan_to v device = v\<lparr>hg_device := device\<rparr>"

text \<open>The \<^verbatim>\<open>vocoder\<close> argument of the constructor: \<^verbatim>\<open>None\<close>, a string, a
  \<^verbatim>\<open>SpeechT5HifiGan\<close> instance, or any other object (named by a label).\<close>

datatype vocoder_arg =
    VNone
  | VStr string
  | VHifiGan hifigan
  | VObject string

text \<open>The backend \<^verbatim>\<open>self.model\<close>, as far as the pipeline reads it:
  \<^verbatim>\<open>config.model_type\<close>, \<^verbatim>\<open>config.to_dict()\<close>,
  \<^verbatim>\<open>__dict__.get("generation_config", None)\<close> (as \<^verbatim>\<open>to_dict()\<close>) and \<^verbatim>\<open>device\<close>.\<close>

record model =
  m_model_type :: string
  m_config :: dict
  m_generation_config :: "dict option"
  m_device :: string

text \<open>The input processor is called with positional and keyword arguments.\<close>

type_synonym processor = "pyval list \<Rightarrow> dict \<Rightarrow> error + dict"

text \<open>A loaded dataset, indexed by record number.\<close>

type_synonym dataset = "nat \<Rightarrow> error + pyval"

text \<open>The library functions the pipeline calls: \<^verbatim>\<open>SpeechT5HifiGan.from_pretrained\<close>,
  \<^verbatim>\<open>load_dataset(name, split=...)\<close> and \<^verbatim>\<open>torch.tensor\<close>.\<close>

record env =
  from_pretrained :: "string \<Rightarrow> error + hifigan"
  load_dataset :: "string \<Rightarrow> string \<Rightarrow> error + dataset"
  torch_tensor :: "pyval \<Rightarrow> error + pyval"

text \<open>\<^verbatim>\<open>t.unsqueeze(0)\<close> on a tensor as nested lists: one more outer dimension.\<close>

definition unsqueeze0 :: "pyval \<Rightarrow> pyval" where
  "unsqueeze0 t = PList [t]"

text \<open>The two entry points of the backend, with the arguments they receive.\<close>

datatype backend_call =
    GenerateSpeech pyval pyval vocoder_arg  \<comment> \<open>\<^verbatim>\<open>generate_speech(inputs, speaker_embeddings, vocoder=...)\<close>\<close>
  | Generate dict                           \<comment> \<open>\<^verbatim>\<open>generate(**model_inputs, **kwargs)\<close>\<close>

section \<open>The pipeline\<close>

definition ONLY_ONE_SPEAKER_EMBEDDINGS_LIST :: "string list" where
  "ONLY_ONE_SPEAKER_EMBEDDINGS_LIST = [''bark'']"

definition SPEAKER_EMBEDDINGS_KEY_MAPPING :: "(string \<times> string) list" where
  "SPEAKER_EMBEDDINGS_KEY_MAPPING = [(''bark'', ''history_prompt'')]"

text \<open>\<^verbatim>\<open>SPEAKER_EMBEDDINGS_KEY_MAPPING.get(model_type, "speaker_embeddings")\<close>.\<close>

definition speaker_embeddings_key :: "string \<Rightarrow> string" where
  "speaker_embeddings_key model_type =
     (case map_of SPEAKER_EMBEDDINGS_KEY_MAPPING model_type of
        None \<Rightarrow> ''speaker_embeddings'' | Some k \<Rightarrow> k)"

text \<open>The state of a \<^verbatim>\<open>TextToSpeechPipeline\<close>.\<close>

record adapter =
  ad_model :: model
  ad_model_type :: string
  ad_is_speecht5 :: bool
  ad_only_one_speaker_embeddings :: bool
  ad_processor :: "processor option"
  ad_vocoder :: vocoder_arg
  ad_sampling_rate :: pyval

subsection \<open>\<^verbatim>\<open>__init__\<close>\<close>

text \<open>\<^verbatim>\<open>isinstance(vocoder, str)\<close> and \<^verbatim>\<open>isinstance(vocoder, SpeechT5HifiGan)\<close>.\<close>

fun isinstance_str :: "vocoder_arg \<Rightarrow> bool" where
  "isinstance_str (VStr s) = True"
| "isinstance_str VNone = False"
| "isinstance_str (VHifiGan v) = False"
| "isinstance_str (VObject l) = False"

fun isinstance_SpeechT5HifiGan :: "vocoder_arg \<Rightarrow> bool" where
  "isinstance_SpeechT5HifiGan (VHifiGan v) = True"
| "isinstance_SpeechT5HifiGan VNone = False"
| "isinstance_SpeechT5HifiGan (VStr s) = False"
| "isinstance_SpeechT5HifiGan (VObject l) = False"

text \<open>Lines 60-71: the checks of the vocoder, which is loaded when it is a string.\<close>

definition init_vocoder :: "env \<Rightarrow> model \<Rightarrow> bool \<Rightarrow> vocoder_arg \<Rightarrow> error + vocoder_arg" where
  "init_vocoder e m is_speecht5 vocoder =
     (if is_speecht5 \<and> vocoder = VNone then Inl (ValueError VocoderIsNone)
      else if is_speecht5 \<and> isinstance_str vocoder then
        (case vocoder of
           VStr s \<Rightarrow>
             (case from_pretrained e s of
                Inl err \<Rightarrow> Inl err
              | Inr v \<Rightarrow> Inr (VHifiGan (hifigan_to v (m_device m))))
         | _ \<Rightarrow> Inr vocoder)
      else if is_speecht5 \<and> \<not> isinstance_SpeechT5HifiGan vocoder then
        Inl (ValueError VocoderNotValid)
      else Inr vocoder)"

text \<open>Lines 82-85: the static configuration, updated by the generation configuration when
  the model has one.\<close>

definition merged_config :: "model \<Rightarrow> dict" where
  "merged_config m =
     (let config = m_config m;
          gen_config = m_generation_config m
      in case gen_config of
           None \<Rightarrow> config
         | Some g \<Rightarrow> dict_update config g)"

text \<open>Lines 80-90: both names are looked up in turn, and each value that is not
  \<^verbatim>\<open>None\<close> is assigned to \<^verbatim>\<open>self.sampling_rate\<close>; the loop has no \<^verbatim>\<open>break\<close>.\<close>

definition config_sampling_rate :: "model \<Rightarrow> pyval" where
  "config_sampling_rate m =
     (let config = merged_config m
      in foldl (\<lambda>self_sampling_rate sampling_rate_name.
                  let sampling_rate = dict_get config sampling_rate_name PNone
                  in if sampling_rate \<noteq> PNone then sampling_rate else self_sampling_rate)
           PNone [''sample_rate'', ''sampling_rate''])"

text \<open>Lines 76-92.\<close>

definition init_sampling_rate :: "model \<Rightarrow> bool \<Rightarrow> vocoder_arg \<Rightarrow> pyval \<Rightarrow> error + pyval" where
  "init_sampling_rate m is_speecht5 vocoder sampling_rate =
     (if is_speecht5 then
        (case vocoder of
           VHifiGan v \<Rightarrow> Inr (hg_sampling_rate v)
         | _ \<Rightarrow> Inl AttributeError)
      else if sampling_rate = PNone then Inr (config_sampling_rate m)
      else Inr sampling_rate)"

text \<open>The constructor. \<open>framework\<close> and \<open>m\<close> are what the base class has set as
  \<^verbatim>\<open>self.framework\<close> and \<^verbatim>\<open>self.model\<close>.\<close>

definition init ::
  "env \<Rightarrow> string \<Rightarrow> model \<Rightarrow> vocoder_arg \<Rightarrow> processor option \<Rightarrow> pyval \<Rightarrow> pyval \<Rightarrow> error + adapter"
where
  "init e framework m vocoder processor sampling_rate sample_rate_name =
     (if framework = ''tf'' then Inl (ValueError PyTorchOnly)
      else
        let model_type = m_model_type m;
            is_speecht5 = (model_type = ''speecht5'');
            only_one_speaker_embeddings = (model_type \<in> set ONLY_ONE_SPEAKER_EMBEDDINGS_LIST)
        in case init_vocoder e m is_speecht5 vocoder of
             Inl err \<Rightarrow> Inl err
           | Inr vocoder' \<Rightarrow>
               (case init_sampling_rate m is_speecht5 vocoder' sampling_rate of
                  Inl err \<Rightarrow> Inl err
                | Inr rate \<Rightarrow>
                    Inr \<lparr>ad_model = m, ad_model_type = model_type,
                         ad_is_speecht5 = is_speecht5,
                         ad_only_one_speaker_embeddings = only_one_speaker_embeddings,
                         ad_processor = processor, ad_vocoder = vocoder',
                         ad_sampling_rate = rate\<rparr>))"

subsection \<open>\<^verbatim>\<open>preprocess\<close>\<close>

text \<open>Calling \<^verbatim>\<open>self.processor\<close>, which may be \<^verbatim>\<open>None\<close>.\<close>

definition call_processor :: "adapter \<Rightarrow> pyval list \<Rightarrow> dict \<Rightarrow> error + dict" where
  "call_processor self args kwargs =
     (case ad_processor self of None \<Rightarrow> Inl TypeError | Some p \<Rightarrow> p args kwargs)"

text \<open>Lines 98-99: the default conditioning vector.\<close>

definition default_speaker_embeddings :: "env \<Rightarrow> error + pyval" where
  "default_speaker_embeddings e =
     (case load_dataset e ''Matthijs/cmu-arctic-xvectors'' ''validation'' of
        Inl err \<Rightarrow> Inl err
      | Inr embeddings_dataset \<Rightarrow>
          (case embeddings_dataset 7305 of
             Inl err \<Rightarrow> Inl err
           | Inr row \<Rightarrow>
               (case py_key row ''xvector'' of
                  Inl err \<Rightarrow> Inl err
                | Inr xvector \<Rightarrow>
                    (case torch_tensor e xvector of
                       Inl err \<Rightarrow> Inl err
                     | Inr t \<Rightarrow> Inr (unsqueeze0 t)))))"

text \<open>Lines 106-110: the keyword under which the processor receives the conditioning
  value.\<close>

definition processor_key :: "model \<Rightarrow> string" where
  "processor_key m = (if m_model_type m = ''bark'' then ''voice_preset'' else ''speaker_embeddings'')"

definition preprocess :: "env \<Rightarrow> adapter \<Rightarrow> pyval \<Rightarrow> pyval \<Rightarrow> dict \<Rightarrow> error + dict" where
  "preprocess e self text speaker_embeddings kwargs =
     (if ad_is_speecht5 self then
        (case call_processor self [] [(''text'', text), (''return_tensors'', PStr ''pt'')] of
           Inl err \<Rightarrow> Inl err
         | Inr inputs \<Rightarrow>
             (case (if speaker_embeddings = PNone then default_speaker_embeddings e
                    else Inr speaker_embeddings) of
                Inl err \<Rightarrow> Inl err
              | Inr speaker_embeddings' \<Rightarrow>
                  (case dict_getitem inputs ''input_ids'' of
                     Inl err \<Rightarrow> Inl err
                   | Inr input_ids \<Rightarrow>
                       Inr [(''input_ids'', input_ids),
                            (''speaker_embeddings'', speaker_embeddings')])))
      else
        let processor_args_dict = [(processor_key (ad_model self), speaker_embeddings)]
        in case call_kwargs processor_args_dict kwargs of
             Inl err \<Rightarrow> Inl err
           | Inr kw \<Rightarrow> call_processor self [text] kw)"

text \<open>\<^verbatim>\<open>preprocess(text, **params)\<close>: the parameter \<^verbatim>\<open>speaker_embeddings\<close> takes its
  keyword (default \<^verbatim>\<open>None\<close>), the other keywords go to \<^verbatim>\<open>**kwargs\<close>.\<close>

definition preprocess_with :: "env \<Rightarrow> adapter \<Rightarrow> pyval \<Rightarrow> dict \<Rightarrow> error + dict" where
  "preprocess_with e self text params =
     preprocess e self text (dict_get params ''speaker_embeddings'' PNone)
       (filter (\<lambda>(k, v). k \<noteq> ''speaker_embeddings'') params)"

subsection \<open>\<^verbatim>\<open>_forward\<close>\<close>

text \<open>Lines 125-130: a family that takes one conditioning value per generation has the
  value under its key replaced by its first element when the batch has more than one
  text. \<^verbatim>\<open>and\<close> evaluates its second operand only if the first holds.\<close>

definition narrow_speaker_embeddings :: "adapter \<Rightarrow> dict \<Rightarrow> error + dict" where
  "narrow_speaker_embeddings self model_inputs =
     (if ad_only_one_speaker_embeddings self then
        let speaker_embeddings_key = speaker_embeddings_key (ad_model_type self)
        in case dict_getitem model_inputs ''input_ids'' of
             Inl err \<Rightarrow> Inl err
           | Inr input_ids \<Rightarrow>
               (case py_len input_ids of
                  Inl err \<Rightarrow> Inl err
                | Inr n \<Rightarrow>
                    if n > 1 \<and> dict_get model_inputs speaker_embeddings_key PNone \<noteq> PNone then
                      (case dict_getitem model_inputs speaker_embeddings_key of
                         Inl err \<Rightarrow> Inl err
                       | Inr v \<Rightarrow>
                           (case py_index v 0 of
                              Inl err \<Rightarrow> Inl err
                            | Inr first \<Rightarrow>
                                Inr (AList.update speaker_embeddings_key first model_inputs)))
                    else Inr model_inputs)
      else Inr model_inputs)"

text \<open>The call \<^verbatim>\<open>_forward\<close> makes on the backend.\<close>

definition forward_call :: "adapter \<Rightarrow> dict \<Rightarrow> dict \<Rightarrow> error + backend_call" where
  "forward_call self model_inputs kwargs =
     (if ad_is_speecht5 self then
        (case dict_getitem model_inputs ''input_ids'' of
           Inl err \<Rightarrow> Inl err
         | Inr inputs \<Rightarrow>
             (case dict_getitem model_inputs ''speaker_embeddings'' of
                Inl err \<Rightarrow> Inl err
              | Inr speaker_embeddings \<Rightarrow>
                  Inr (GenerateSpeech inputs speaker_embeddings (ad_vocoder self))))
      else
        (case narrow_speaker_embeddings self model_inputs of
           Inl err \<Rightarrow> Inl err
         | Inr model_inputs' \<Rightarrow>
             (case call_kwargs model_inputs' kwargs of
                Inl err \<Rightarrow> Inl err
              | Inr args \<Rightarrow> Inr (Generate args))))"

text \<open>\<^verbatim>\<open>_forward\<close>: the speech is what the backend returns for that call.\<close>

definition forward ::
  "(backend_call \<Rightarrow> error + pyval) \<Rightarrow> adapter \<Rightarrow> dict \<Rightarrow> dict \<Rightarrow> error + pyval"
where
  "forward backend self model_inputs kwargs =
     (case forward_call self model_inputs kwargs of
        Inl err \<Rightarrow> Inl err
      | Inr c \<Rightarrow> backend c)"

subsection \<open>\<^verbatim>\<open>_sanitize_parameters\<close> and \<^verbatim>\<open>postprocess\<close>\<close>

definition sanitize_parameters :: "dict \<Rightarrow> dict \<times> dict \<times> dict" where
  "sanitize_parameters generate_kwargs =
     (let preprocess_params =
            [(''speaker_embeddings'', dict_get generate_kwargs ''speaker_embeddings'' PNone)];
          forward_params =
            filter (\<lambda>(key, val). key \<notin> set (map fst preprocess_params)) generate_kwargs;
          postprocess_params = []
      in (preprocess_params, forward_params, postprocess_params))"

definition postprocess :: "pyval \<Rightarrow> pyval" where
  "postprocess speech = speech"

section \<open>Stub collaborators\<close>

text \<open>Collaborators with fixed answers, for running the pipeline on concrete inputs: a
  vocoder repository, the reference dataset, a tensor constructor, and a processor that
  returns fixed token ids together with the keyword arguments it has received.\<close>

definition stub_vocoder :: hifigan where
  "stub_vocoder = \<lparr>hg_sampling_rate = PInt 16000, hg_device = ''hub''\<rparr>"

definition stub_from_pretrained :: "string \<Rightarrow> error + hifigan" where
  "stub_from_pretrained reference = Inr stub_vocoder"

definition stub_dataset :: dataset where
  "stub_dataset i =
     (if i = 7305 then Inr (PDict [(''xvector'', PList [PInt 3, PInt 4])])
      else Inr (PDict [(''xvector'', PList [PInt 0, PInt 0])]))"

definition stub_load_dataset :: "string \<Rightarrow> string \<Rightarrow> error + dataset" where
  "stub_load_dataset name split =
     (if name = ''Matthijs/cmu-arctic-xvectors'' \<and> split = ''validation'' then Inr stub_dataset
      else Inl (CollaboratorError ''no such dataset''))"

definition stub_torch_tensor :: "pyval \<Rightarrow> error + pyval" where
  "stub_torch_tensor v = Inr v"

definition stub_env :: env where
  "stub_env = \<lparr>from_pretrained = stub_from_pretrained, load_dataset = stub_load_dataset,
                torch_tensor = stub_torch_tensor\<rparr>"

definition stub_processor :: processor where
  "stub_processor args kwargs = Inr ((''input_ids'', PList [PList [PInt 1, PInt 2]]) # kwargs)"

definition bark_model :: model where
  "bark_model = \<lparr>m_model_type = ''bark'',
                 m_config = [(''sample_rate'', PInt 16000), (''sampling_rate'', PInt 24000)],
                 m_generation_config = None, m_device = ''cpu''\<rparr>"

definition speecht5_model :: model where
  "speecht5_model = \<lparr>m_model_type = ''speecht5'', m_config = [(''sampling_rate'', PInt 8000)],
                     m_generation_config = None, m_device = ''cpu''\<rparr>"

text \<open>The pipelines the constructor builds for these two models (see \<open>bark_pipeline_init\<close>
  and \<open>speecht5_pipeline_init\<close>).\<close>

definition bark_pipeline :: adapter where
  "bark_pipeline = \<lparr>ad_model = bark_model, ad_model_type = ''bark'', ad_is_speecht5 = False,
                    ad_only_one_speaker_embeddings = True, ad_processor = Some stub_processor,
                    ad_vocoder = VNone, ad_sampling_rate = PInt 24000\<rparr>"

definition speecht5_pipeline :: adapter where
  "speecht5_pipeline = \<lparr>ad_model = speecht5_model, ad_model_type = ''speecht5'',
                        ad_is_speecht5 = True, ad_only_one_speaker_embeddings = False,
                        ad_processor = Some stub_processor,
                        ad_vocoder = VHifiGan (stub_vocoder\<lparr>hg_device := ''cpu''\<rparr>),
                        ad_sampling_rate = PInt 16000\<rparr>"

section \<open>Dictionaries\<close>

lemma map_of_dict_update:
  "distinct (map fst other) \<Longrightarrow> map_of (dict_update d other) = map_of d ++ map_of other"
  unfolding dict_update_def
proof (induction other arbitrary: d)
  case Nil
  show ?case by simp
next
  case (Cons p other)
  obtain k v where p: "p = (k, v)" by (cases p)
  from Cons.prems p have fresh: "k \<notin> dom (map_of other)" and rest: "distinct (map fst other)"
    by (auto simp: dom_map_of_conv_image_fst)
  have "map_of (foldl (\<lambda>acc (k, v). AList.update k v acc) d (p # other))
          = map_of (foldl (\<lambda>acc (k, v). AList.update k v acc) (AList.update k v d) other)"
    by (simp add: p)
  also have "\<dots> = map_of (AList.update k v d) ++ map_of other"
    using rest by (rule Cons.IH)
  also have "\<dots> = (map_of d ++ map_of other)(k \<mapsto> v)"
    using fresh by (simp add: update_conv' map_add_upd_left)
  also have "\<dots> = map_of d ++ map_of (p # other)"
    by (simp add: p)
  finally show ?case .
qed

lemma map_of_dict_update_absent:
  "map_of other k = None \<Longrightarrow> map_of (dict_update d other) k = map_of d k"
  unfolding dict_update_def
proof (induction other arbitrary: d)
  case Nil
  show ?case by simp
next
  case (Cons p other)
  obtain k' v where p: "p = (k', v)" by (cases p)
  from Cons.prems p have neq: "k' \<noteq> k" and rest: "map_of other k = None"
    by (auto split: if_splits)
  have "map_of (foldl (\<lambda>acc (k, v). AList.update k v acc) d (p # other)) k
          = map_of (foldl (\<lambda>acc (k, v). AList.update k v acc) (AList.update k' v d) other) k"
    by (simp add: p)
  also have "\<dots> = map_of (AList.update k' v d) k"
    using rest by (rule Cons.IH)
  also have "\<dots> = map_of d k"
    using neq by (simp add: update_conv')
  finally show ?case .
qed

lemma call_kwargs_Inr:
  "call_kwargs a b = Inr args \<Longrightarrow> args = a @ b"
  by (simp add: call_kwargs_def split: if_splits)

lemma call_kwargs_disjoint:
  "call_kwargs a b = Inr args \<Longrightarrow> map_of b k = Some v \<Longrightarrow> map_of a k = None"
  by (force simp: call_kwargs_def list_ex_iff map_of_eq_None_iff dest!: map_of_SomeD
      split: if_splits)

lemma map_of_filter_key:
  "k \<noteq> k' \<Longrightarrow> map_of (filter (\<lambda>(key, val). key \<noteq> k') xs) k = map_of xs k"
  by (induction xs) auto

section \<open>The constructor\<close>

lemma hg_sampling_rate_to [simp]: "hg_sampling_rate (hifigan_to v device) = hg_sampling_rate v"
  by (simp add: hifigan_to_def)

lemma config_sampling_rate_eq:
  "config_sampling_rate m =
     (if dict_get (merged_config m) ''sampling_rate'' PNone \<noteq> PNone
      then dict_get (merged_config m) ''sampling_rate'' PNone
      else dict_get (merged_config m) ''sample_rate'' PNone)"
  by (simp add: config_sampling_rate_def Let_def)

lemma init_generic:
  assumes "m_model_type m \<noteq> ''speecht5''"
  shows "init e framework m vocoder processor sampling_rate sample_rate_name =
     (if framework = ''tf'' then Inl (ValueError PyTorchOnly)
      else Inr \<lparr>ad_model = m, ad_model_type = m_model_type m, ad_is_speecht5 = False,
                ad_only_one_speaker_embeddings =
                  (m_model_type m \<in> set ONLY_ONE_SPEAKER_EMBEDDINGS_LIST),
                ad_processor = processor, ad_vocoder = vocoder,
                ad_sampling_rate =
                  (if sampling_rate = PNone then config_sampling_rate m else sampling_rate)\<rparr>)"
  using assms by (simp add: init_def init_vocoder_def init_sampling_rate_def Let_def)

lemma init_fields:
  assumes "init e framework m vocoder processor sampling_rate sample_rate_name = Inr self"
  shows "ad_model self = m" and "ad_model_type self = m_model_type m"
    and "ad_is_speecht5 self = (m_model_type m = ''speecht5'')"
    and "ad_only_one_speaker_embeddings self =
           (m_model_type m \<in> set ONLY_ONE_SPEAKER_EMBEDDINGS_LIST)"
    and "ad_processor self = processor"
  using assms
  by (auto simp: init_def Let_def split: if_splits sum.splits)

lemma bark_pipeline_init:
  "init stub_env ''pt'' bark_model VNone (Some stub_processor) PNone PNone = Inr bark_pipeline"
  by (simp add: init_def init_vocoder_def init_sampling_rate_def config_sampling_rate_def merged_config_def
      bark_model_def bark_pipeline_def ONLY_ONE_SPEAKER_EMBEDDINGS_LIST_def dict_get_def Let_def)

lemma speecht5_pipeline_init:
  "init stub_env ''pt'' speecht5_model (VStr ''microsoft/speecht5_hifigan'') (Some stub_processor)
     PNone PNone = Inr speecht5_pipeline"
  by (simp add: init_def init_vocoder_def init_sampling_rate_def
      speecht5_model_def speecht5_pipeline_def ONLY_ONE_SPEAKER_EMBEDDINGS_LIST_def
      stub_env_def stub_from_pretrained_def stub_vocoder_def hifigan_to_def Let_def)

text \<open>
  C3 does not hold as stated: on the framework \<^verbatim>\<open>"tf"\<close> the constructor raises its
  \<^verbatim>\<open>ValueError\<close> before it looks at the vocoder, so a string vocoder is not loaded.
\<close>

theorem speecht5_string_vocoder_counterexample:
  "m_model_type speecht5_model = ''speecht5''
   \<and> from_pretrained stub_env ''microsoft/speecht5_hifigan'' = Inr stub_vocoder
   \<and> init stub_env ''tf'' speecht5_model (VStr ''microsoft/speecht5_hifigan'')
        (Some stub_processor) PNone PNone = Inl (ValueError PyTorchOnly)"
  by (simp add: init_def speecht5_model_def stub_env_def stub_from_pretrained_def)

text \<open>
  C3, amended: for the family \<^verbatim>\<open>speecht5\<close>, the constructor raises a \<^verbatim>\<open>ValueError\<close>
  when the vocoder is \<^verbatim>\<open>None\<close>, and when it is neither a string nor a
  \<^verbatim>\<open>SpeechT5HifiGan\<close>; when it is a string and the framework is not \<^verbatim>\<open>"tf"\<close>, the
  vocoder is loaded from that reference: the constructor fails only as the loader does, and
  otherwise keeps the loaded vocoder, moved to the model's device.
\<close>

theorem speecht5_vocoder_checks:
  assumes "m_model_type m = ''speecht5''"
  shows "init e framework m VNone processor sampling_rate sample_rate_name =
           Inl (ValueError (if framework = ''tf'' then PyTorchOnly else VocoderIsNone))
       \<and> init e framework m (VObject l) processor sampling_rate sample_rate_name =
           Inl (ValueError (if framework = ''tf'' then PyTorchOnly else VocoderNotValid))
       \<and> (framework \<noteq> ''tf'' \<longrightarrow>
            init e framework m (VStr s) processor sampling_rate sample_rate_name =
              (case from_pretrained e s of
                 Inl err \<Rightarrow> Inl err
               | Inr v \<Rightarrow>
                   Inr \<lparr>ad_model = m, ad_model_type = ''speecht5'', ad_is_speecht5 = True,
                        ad_only_one_speaker_embeddings = False, ad_processor = processor,
                        ad_vocoder = VHifiGan (hifigan_to v (m_device m)),
                        ad_sampling_rate = hg_sampling_rate v\<rparr>))"
  using assms
  by (simp add: init_def init_vocoder_def init_sampling_rate_def Let_def
      ONLY_ONE_SPEAKER_EMBEDDINGS_LIST_def split: sum.splits)

theorem speecht5_vocoder_checks_witness:
  "init stub_env ''pt'' speecht5_model VNone None PNone PNone = Inl (ValueError VocoderIsNone)
   \<and> init stub_env ''pt'' speecht5_model (VObject ''a tensor'') None PNone PNone =
       Inl (ValueError VocoderNotValid)
   \<and> init stub_env ''pt'' speecht5_model (VStr ''microsoft/speecht5_hifigan'')
        (Some stub_processor) PNone PNone = Inr speecht5_pipeline"
proof -
  have family: "m_model_type speecht5_model = ''speecht5''"
    by (simp add: speecht5_model_def)
  show ?thesis
    using speecht5_vocoder_checks [OF family, of stub_env "''pt''" None PNone PNone
        "''a tensor''" "''microsoft/speecht5_hifigan''"]
      speecht5_vocoder_checks [OF family, of stub_env "''pt''" "Some stub_processor" PNone PNone
        "''a tensor''" "''microsoft/speecht5_hifigan''"]
    by (simp add: stub_env_def stub_from_pretrained_def stub_vocoder_def hifigan_to_def
        speecht5_model_def speecht5_pipeline_def)
qed

text \<open>
  C8: when the family is \<^verbatim>\<open>speecht5\<close> and the constructor has resolved a vocoder (the
  instance it was given, or the one loaded from the string it was given), the sampling rate
  of the pipeline is the vocoder's, whatever the \<^verbatim>\<open>sampling_rate\<close> argument and the
  configurations of the model are.
\<close>

theorem speecht5_sampling_rate_from_vocoder:
  assumes "init e framework m vocoder processor sampling_rate sample_rate_name = Inr self"
    and "m_model_type m = ''speecht5''"
  shows "\<exists>v. ad_vocoder self = VHifiGan v \<and> ad_sampling_rate self = hg_sampling_rate v
           \<and> (vocoder = VHifiGan v
              \<or> (\<exists>s v0. vocoder = VStr s \<and> from_pretrained e s = Inr v0
                         \<and> v = hifigan_to v0 (m_device m)))"
proof (cases vocoder)
  case VNone
  with assms show ?thesis
    by (simp add: init_def init_vocoder_def Let_def split: if_splits)
next
  case (VStr s)
  with assms show ?thesis
    by (auto simp: init_def init_vocoder_def init_sampling_rate_def Let_def
        split: if_splits sum.splits)
next
  case (VHifiGan v)
  with assms show ?thesis
    by (auto simp: init_def init_vocoder_def init_sampling_rate_def Let_def
        split: if_splits)
next
  case (VObject l)
  with assms show ?thesis
    by (simp add: init_def init_vocoder_def Let_def split: if_splits)
qed

theorem speecht5_sampling_rate_from_vocoder_witness:
  "map_sum id ad_sampling_rate
     (init stub_env ''pt'' speecht5_model (VHifiGan stub_vocoder) None (PInt 44100) PNone) =
     Inr (PInt 16000)"
proof -
  have family: "m_model_type speecht5_model = ''speecht5''"
    by (simp add: speecht5_model_def)
  obtain a where a:
    "init stub_env ''pt'' speecht5_model (VHifiGan stub_vocoder) None (PInt 44100) PNone = Inr a"
    by (simp add: init_def init_vocoder_def init_sampling_rate_def Let_def family)
  from speecht5_sampling_rate_from_vocoder [OF a family]
  have "ad_sampling_rate a = hg_sampling_rate stub_vocoder"
    by auto
  also have "\<dots> = PInt 16000"
    by (simp add: stub_vocoder_def)
  finally show ?thesis
    by (simp add: a)
qed

text \<open>
  C9: two constructions that differ only in \<^verbatim>\<open>sample_rate_name\<close> have the same outcome:
  the same error, or pipelines with the same state.
\<close>

theorem sample_rate_name_unused:
  "init e framework m vocoder processor sampling_rate sample_rate_name =
   init e framework m vocoder processor sampling_rate sample_rate_name'"
  by (simp add: init_def)

text \<open>
  C2 does not hold as stated: with \<^verbatim>\<open>sample_rate\<close> 16000 and \<^verbatim>\<open>sampling_rate\<close> 24000
  in the configuration, the sampling rate of the pipeline is 24000.
\<close>

theorem sample_rate_first_counterexample:
  "init stub_env ''pt'' bark_model VNone (Some stub_processor) PNone PNone = Inr bark_pipeline
   \<and> m_model_type bark_model \<noteq> ''speecht5''
   \<and> map_of (merged_config bark_model) ''sample_rate'' = Some (PInt 16000)
   \<and> map_of (merged_config bark_model) ''sampling_rate'' = Some (PInt 24000)
   \<and> ad_sampling_rate bark_pipeline \<noteq> PInt 16000"
  using bark_pipeline_init
  by (simp add: bark_model_def merged_config_def bark_pipeline_def)

text \<open>
  C2, amended: for a model of another family than \<^verbatim>\<open>speecht5\<close>, constructed without
  \<^verbatim>\<open>sampling_rate\<close>, whose merged configuration has values other than \<^verbatim>\<open>None\<close> under both
  \<^verbatim>\<open>sample_rate\<close> and \<^verbatim>\<open>sampling_rate\<close>, the sampling rate of the pipeline is the value
  under \<^verbatim>\<open>sampling_rate\<close>: the name looked up last wins.
\<close>

theorem sampling_rate_last_name_wins:
  assumes "init e framework m vocoder processor PNone sample_rate_name = Inr self"
    and "m_model_type m \<noteq> ''speecht5''"
    and "map_of (merged_config m) ''sample_rate'' = Some a" and "a \<noteq> PNone"
    and "map_of (merged_config m) ''sampling_rate'' = Some b" and "b \<noteq> PNone"
  shows "ad_sampling_rate self = b"
proof -
  have "config_sampling_rate m = b"
    using assms(5,6) by (simp add: config_sampling_rate_eq dict_get_def)
  moreover have "ad_sampling_rate self = config_sampling_rate m"
    using assms(1,2) by (auto simp: init_generic split: if_splits)
  ultimately show ?thesis by simp
qed

theorem sampling_rate_last_name_wins_witness:
  "init stub_env ''pt'' bark_model VNone (Some stub_processor) PNone PNone = Inr bark_pipeline
   \<and> map_of (merged_config bark_model) ''sample_rate'' = Some (PInt 16000)
   \<and> map_of (merged_config bark_model) ''sampling_rate'' = Some (PInt 24000)
   \<and> ad_sampling_rate bark_pipeline = PInt 24000"
proof -
  have family: "m_model_type bark_model \<noteq> ''speecht5''"
    by (simp add: bark_model_def)
  have first: "map_of (merged_config bark_model) ''sample_rate'' = Some (PInt 16000)"
    and last: "map_of (merged_config bark_model) ''sampling_rate'' = Some (PInt 24000)"
    by (simp_all add: bark_model_def merged_config_def)
  have "ad_sampling_rate bark_pipeline = PInt 24000"
    by (rule sampling_rate_last_name_wins [OF bark_pipeline_init family first _ last]) simp_all
  with bark_pipeline_init first last show ?thesis by simp
qed

text \<open>
  C4: for a model of another family than \<^verbatim>\<open>speecht5\<close>, constructed without
  \<^verbatim>\<open>sampling_rate\<close>, whose static configuration has \<^verbatim>\<open>sampling_rate\<close> 16000: the sampling
  rate of the pipeline is 24000 when the generation configuration has \<^verbatim>\<open>sampling_rate\<close>
  24000, and 16000 when there is no generation configuration or it has no
  \<^verbatim>\<open>sampling_rate\<close>. (A generation configuration is a dict: its keys are distinct.)
\<close>

theorem generation_config_overrides_static:
  assumes "init e framework m vocoder processor PNone sample_rate_name = Inr self"
    and "m_model_type m \<noteq> ''speecht5''"
    and "map_of (m_config m) ''sampling_rate'' = Some (PInt 16000)"
  shows "(\<forall>g. m_generation_config m = Some g \<and> distinct (map fst g)
               \<and> map_of g ''sampling_rate'' = Some (PInt 24000)
             \<longrightarrow> ad_sampling_rate self = PInt 24000)
       \<and> (m_generation_config m = None \<longrightarrow> ad_sampling_rate self = PInt 16000)
       \<and> (\<forall>g. m_generation_config m = Some g \<and> map_of g ''sampling_rate'' = None
             \<longrightarrow> ad_sampling_rate self = PInt 16000)"
proof -
  have rate: "ad_sampling_rate self = config_sampling_rate m"
    using assms(1,2) by (auto simp: init_generic split: if_splits)
  have override: "ad_sampling_rate self = PInt 24000"
    if "m_generation_config m = Some g" "distinct (map fst g)"
       "map_of g ''sampling_rate'' = Some (PInt 24000)" for g
  proof -
    have "map_of (merged_config m) ''sampling_rate'' = Some (PInt 24000)"
      using that by (simp add: merged_config_def map_of_dict_update)
    then show ?thesis
      by (simp add: rate config_sampling_rate_eq dict_get_def)
  qed
  have static: "ad_sampling_rate self = PInt 16000" if "m_generation_config m = None"
  proof -
    have "map_of (merged_config m) ''sampling_rate'' = Some (PInt 16000)"
      using that assms(3) by (simp add: merged_config_def)
    then show ?thesis
      by (simp add: rate config_sampling_rate_eq dict_get_def)
  qed
  have kept: "ad_sampling_rate self = PInt 16000"
    if "m_generation_config m = Some g" "map_of g ''sampling_rate'' = None" for g
  proof -
    have "map_of (merged_config m) ''sampling_rate'' = Some (PInt 16000)"
      using that assms(3) by (simp add: merged_config_def map_of_dict_update_absent)
    then show ?thesis
      by (simp add: rate config_sampling_rate_eq dict_get_def)
  qed
  from override static kept show ?thesis by blast
qed

theorem generation_config_overrides_static_witness:
  "map_sum id ad_sampling_rate
     (init stub_env ''pt''
        \<lparr>m_model_type = ''vits'', m_config = [(''sampling_rate'', PInt 16000)],
         m_generation_config = Some [(''sampling_rate'', PInt 24000)], m_device = ''cpu''\<rparr>
        VNone None PNone PNone) = Inr (PInt 24000)
   \<and> map_sum id ad_sampling_rate
     (init stub_env ''pt''
        \<lparr>m_model_type = ''vits'', m_config = [(''sampling_rate'', PInt 16000)],
         m_generation_config = None, m_device = ''cpu''\<rparr>
        VNone None PNone PNone) = Inr (PInt 16000)
   \<and> map_sum id ad_sampling_rate
     (init stub_env ''pt''
        \<lparr>m_model_type = ''vits'', m_config = [(''sampling_rate'', PInt 16000)],
         m_generation_config = Some [(''do_sample'', PInt 1)], m_device = ''cpu''\<rparr>
        VNone None PNone PNone) = Inr (PInt 16000)"
proof -
  let ?over = "\<lparr>m_model_type = ''vits'', m_config = [(''sampling_rate'', PInt 16000)],
                m_generation_config = Some [(''sampling_rate'', PInt 24000)],
                m_device = ''cpu''\<rparr>"
  let ?plain = "\<lparr>m_model_type = ''vits'', m_config = [(''sampling_rate'', PInt 16000)],
                 m_generation_config = None, m_device = ''cpu''\<rparr>"
  let ?other = "\<lparr>m_model_type = ''vits'', m_config = [(''sampling_rate'', PInt 16000)],
                 m_generation_config = Some [(''do_sample'', PInt 1)], m_device = ''cpu''\<rparr>"
  obtain a1 where a1: "init stub_env ''pt'' ?over VNone None PNone PNone = Inr a1"
    by (simp add: init_generic)
  obtain a2 where a2: "init stub_env ''pt'' ?plain VNone None PNone PNone = Inr a2"
    by (simp add: init_generic)
  obtain a3 where a3: "init stub_env ''pt'' ?other VNone None PNone PNone = Inr a3"
    by (simp add: init_generic)
  have "ad_sampling_rate a1 = PInt 24000"
    using generation_config_overrides_static [OF a1] by simp
  moreover have "ad_sampling_rate a2 = PInt 16000"
    using generation_config_overrides_static [OF a2] by simp
  moreover have "ad_sampling_rate a3 = PInt 16000"
    using generation_config_overrides_static [OF a3] by simp
  ultimately show ?thesis
    by (simp add: a1 a2 a3)
qed

section \<open>Input preparation\<close>

lemma preprocess_generic:
  assumes init: "init e framework m vocoder processor sampling_rate sample_rate_name = Inr self"
    and generic: "m_model_type m \<noteq> ''speecht5''"
    and proc: "processor = Some p"
  shows "preprocess e' self text speaker_embeddings kwargs =
           (if processor_key m \<in> fst ` set kwargs then Inl TypeError
            else p [text] ((processor_key m, speaker_embeddings) # kwargs))"
  using init_fields [OF init] generic proc
  by (simp add: preprocess_def call_kwargs_def call_processor_def Let_def)

text \<open>
  C5 does not hold as stated: the lookup table gives \<^verbatim>\<open>history_prompt\<close> for \<^verbatim>\<open>bark\<close>,
  and the processor of a \<^verbatim>\<open>bark\<close> pipeline receives the conditioning value under
  \<^verbatim>\<open>voice_preset\<close>.
\<close>

theorem preprocess_table_key_counterexample:
  "init stub_env ''pt'' bark_model VNone (Some stub_processor) PNone PNone = Inr bark_pipeline
   \<and> m_model_type bark_model = ''bark''
   \<and> speaker_embeddings_key ''bark'' = ''history_prompt''
   \<and> preprocess stub_env bark_pipeline (PStr ''Hello'') (PStr ''v2/en_speaker_1'') [] =
       stub_processor [PStr ''Hello''] [(''voice_preset'', PStr ''v2/en_speaker_1'')]
   \<and> stub_processor [PStr ''Hello''] [(''voice_preset'', PStr ''v2/en_speaker_1'')] \<noteq>
       stub_processor [PStr ''Hello''] [(''history_prompt'', PStr ''v2/en_speaker_1'')]"
  using bark_pipeline_init
  by (simp add: bark_model_def bark_pipeline_def speaker_embeddings_key_def
      SPEAKER_EMBEDDINGS_KEY_MAPPING_def preprocess_def call_kwargs_def call_processor_def
      processor_key_def stub_processor_def)

text \<open>
  C5, amended: for every family other than \<^verbatim>\<open>speecht5\<close>, input preparation passes the
  conditioning value to the processor under \<^verbatim>\<open>voice_preset\<close> when the family is
  \<^verbatim>\<open>bark\<close> and under \<^verbatim>\<open>speaker_embeddings\<close> otherwise, together with the other keyword
  arguments (a keyword given twice is a \<^verbatim>\<open>TypeError\<close>); the lookup table is not used.
\<close>

theorem preprocess_conditioning_key:
  assumes "init e framework m vocoder processor sampling_rate sample_rate_name = Inr self"
    and "m_model_type m \<noteq> ''speecht5''"
    and "processor = Some p"
  shows "preprocess e' self text speaker_embeddings kwargs =
           (if (if m_model_type m = ''bark'' then ''voice_preset'' else ''speaker_embeddings'')
                 \<in> fst ` set kwargs
            then Inl TypeError
            else p [text]
                   ((if m_model_type m = ''bark'' then ''voice_preset''
                     else ''speaker_embeddings'', speaker_embeddings) # kwargs))"
  using preprocess_generic [OF assms] by (simp add: processor_key_def)

theorem preprocess_conditioning_key_witness:
  "preprocess stub_env bark_pipeline (PStr ''Hello'') (PStr ''v2/en_speaker_1'') [] =
     Inr [(''input_ids'', PList [PList [PInt 1, PInt 2]]),
          (''voice_preset'', PStr ''v2/en_speaker_1'')]
   \<and> (case init stub_env ''pt'' (bark_model\<lparr>m_model_type := ''vits''\<rparr>) VNone
             (Some stub_processor) PNone PNone of
        Inl err \<Rightarrow> Inl err
      | Inr self \<Rightarrow> preprocess stub_env self (PStr ''Hello'') (PList [PInt 5]) []) =
     Inr [(''input_ids'', PList [PList [PInt 1, PInt 2]]),
          (''speaker_embeddings'', PList [PInt 5])]"
proof -
  have bark: "m_model_type bark_model \<noteq> ''speecht5''"
    and vits: "m_model_type (bark_model\<lparr>m_model_type := ''vits''\<rparr>) \<noteq> ''speecht5''"
    by (simp_all add: bark_model_def)
  obtain self where self:
    "init stub_env ''pt'' (bark_model\<lparr>m_model_type := ''vits''\<rparr>) VNone
       (Some stub_processor) PNone PNone = Inr self"
    by (simp add: init_generic vits)
  have "preprocess stub_env bark_pipeline (PStr ''Hello'') (PStr ''v2/en_speaker_1'') [] =
          Inr [(''input_ids'', PList [PList [PInt 1, PInt 2]]),
               (''voice_preset'', PStr ''v2/en_speaker_1'')]"
    using preprocess_conditioning_key [OF bark_pipeline_init bark refl, of stub_env
        "PStr ''Hello''" "PStr ''v2/en_speaker_1''" "[]"]
    by (simp add: bark_model_def stub_processor_def)
  moreover
  have "preprocess stub_env self (PStr ''Hello'') (PList [PInt 5]) [] =
          Inr [(''input_ids'', PList [PList [PInt 1, PInt 2]]),
               (''speaker_embeddings'', PList [PInt 5])]"
    using preprocess_conditioning_key [OF self vits refl, of stub_env
        "PStr ''Hello''" "PList [PInt 5]" "[]"]
    by (simp add: bark_model_def stub_processor_def)
  ultimately show ?thesis
    by (simp add: self)
qed

text \<open>
  C10: for every family other than \<^verbatim>\<open>speecht5\<close>, when the caller gives no conditioning
  value, the preparation parameters bind \<^verbatim>\<open>speaker_embeddings\<close> to \<^verbatim>\<open>None\<close>, and input
  preparation calls the processor with the family's key (\<^verbatim>\<open>voice_preset\<close> for \<^verbatim>\<open>bark\<close>,
  \<^verbatim>\<open>speaker_embeddings\<close> otherwise) bound to \<^verbatim>\<open>None\<close>; nothing is loaded from the
  dataset, whatever the environment is.
\<close>

theorem preprocess_absent_conditioning:
  assumes "init e framework m vocoder processor sampling_rate sample_rate_name = Inr self"
    and "m_model_type m \<noteq> ''speecht5''"
    and "processor = Some p"
    and "dict_get generate_kwargs ''speaker_embeddings'' PNone = PNone"
  shows "fst (sanitize_parameters generate_kwargs) = [(''speaker_embeddings'', PNone)]
       \<and> preprocess_with e' self text (fst (sanitize_parameters generate_kwargs)) =
           p [text] [(if m_model_type m = ''bark'' then ''voice_preset''
                      else ''speaker_embeddings'', PNone)]
       \<and> preprocess e' self text PNone [] =
           p [text] [(if m_model_type m = ''bark'' then ''voice_preset''
                      else ''speaker_embeddings'', PNone)]"
  using preprocess_generic [OF assms(1,2,3)] assms(4)
  by (simp add: sanitize_parameters_def preprocess_with_def dict_get_def processor_key_def)

theorem preprocess_absent_conditioning_witness:
  "dict_get [(''do_sample'', PInt 1)] ''speaker_embeddings'' PNone = PNone
   \<and> preprocess_with stub_env bark_pipeline (PStr ''Hello'')
       (fst (sanitize_parameters [(''do_sample'', PInt 1)])) =
       Inr [(''input_ids'', PList [PList [PInt 1, PInt 2]]), (''voice_preset'', PNone)]"
proof -
  have bark: "m_model_type bark_model \<noteq> ''speecht5''"
    by (simp add: bark_model_def)
  have absent: "dict_get [(''do_sample'', PInt 1)] ''speaker_embeddings'' PNone = PNone"
    by (simp add: dict_get_def)
  from preprocess_absent_conditioning [OF bark_pipeline_init bark refl absent, of stub_env
      "PStr ''Hello''"]
  have "preprocess_with stub_env bark_pipeline (PStr ''Hello'')
          (fst (sanitize_parameters [(''do_sample'', PInt 1)])) =
        stub_processor [PStr ''Hello''] [(''voice_preset'', PNone)]"
    by (elim conjE) (simp add: bark_model_def)
  with absent show ?thesis
    by (simp add: stub_processor_def)
qed

text \<open>
  C6: for the family \<^verbatim>\<open>speecht5\<close>, when input preparation is given no conditioning
  value, the prepared inputs hold under \<^verbatim>\<open>speaker_embeddings\<close> the \<^verbatim>\<open>xvector\<close> of record
  7305 of the validation split of \<^verbatim>\<open>Matthijs/cmu-arctic-xvectors\<close>, as a tensor with one
  more leading dimension: the same record for every text and every call.
\<close>

theorem speecht5_default_speaker_embeddings:
  assumes init: "init e framework m vocoder processor sampling_rate sample_rate_name = Inr self"
    and speecht5: "m_model_type m = ''speecht5''"
    and proc: "processor = Some p"
    and tokens: "p [] [(''text'', text), (''return_tensors'', PStr ''pt'')] = Inr inputs"
    and ids: "dict_getitem inputs ''input_ids'' = Inr input_ids"
    and ds: "load_dataset e' ''Matthijs/cmu-arctic-xvectors'' ''validation'' = Inr embeddings_dataset"
    and row: "embeddings_dataset 7305 = Inr row"
    and xv: "py_key row ''xvector'' = Inr xvector"
    and tensor: "torch_tensor e' xvector = Inr t"
  shows "preprocess e' self text PNone kwargs =
           Inr [(''input_ids'', input_ids), (''speaker_embeddings'', PList [t])]"
proof -
  have "default_speaker_embeddings e' = Inr (PList [t])"
    using ds row xv tensor by (simp add: default_speaker_embeddings_def unsqueeze0_def)
  then show ?thesis
    using init_fields [OF init] speecht5 proc tokens ids
    by (simp add: preprocess_def call_processor_def)
qed

theorem speecht5_default_speaker_embeddings_witness:
  "preprocess stub_env speecht5_pipeline (PStr ''Hello'') PNone [] =
     Inr [(''input_ids'', PList [PList [PInt 1, PInt 2]]),
          (''speaker_embeddings'', PList [PList [PInt 3, PInt 4]])]"
proof -
  have family: "m_model_type speecht5_model = ''speecht5''"
    by (simp add: speecht5_model_def)
  have tokens: "stub_processor [] [(''text'', PStr ''Hello''), (''return_tensors'', PStr ''pt'')] =
      Inr [(''input_ids'', PList [PList [PInt 1, PInt 2]]), (''text'', PStr ''Hello''),
           (''return_tensors'', PStr ''pt'')]"
    by (simp add: stub_processor_def)
  have ids: "dict_getitem [(''input_ids'', PList [PList [PInt 1, PInt 2]]),
                           (''text'', PStr ''Hello''), (''return_tensors'', PStr ''pt'')]
               ''input_ids'' = Inr (PList [PList [PInt 1, PInt 2]])"
    by (simp add: dict_getitem_def)
  have ds: "load_dataset stub_env ''Matthijs/cmu-arctic-xvectors'' ''validation'' =
              Inr stub_dataset"
    by (simp add: stub_env_def stub_load_dataset_def)
  have row: "stub_dataset 7305 = Inr (PDict [(''xvector'', PList [PInt 3, PInt 4])])"
    by (simp add: stub_dataset_def)
  have xv: "py_key (PDict [(''xvector'', PList [PInt 3, PInt 4])]) ''xvector'' =
              Inr (PList [PInt 3, PInt 4])"
    by (simp add: dict_getitem_def)
  have tensor: "torch_tensor stub_env (PList [PInt 3, PInt 4]) = Inr (PList [PInt 3, PInt 4])"
    by (simp add: stub_env_def stub_torch_tensor_def)
  show ?thesis
    by (rule speecht5_default_speaker_embeddings
        [OF speecht5_pipeline_init family refl tokens ids ds row xv tensor])
qed

section \<open>Generation\<close>

lemma call_kwargs_fresh:
  "fst ` set a \<inter> fst ` set b = {} \<Longrightarrow> call_kwargs a b = Inr (a @ b)"
  by (auto simp: call_kwargs_def list_ex_iff)

text \<open>When no keyword is given twice, \<^verbatim>\<open>_forward\<close> of a single-embedding family fails only
  where the first element of the conditioning value does not exist.\<close>

lemma forward_call_only_one:
  assumes flags: "\<not> ad_is_speecht5 self" "ad_only_one_speaker_embeddings self"
    and ids: "dict_getitem model_inputs ''input_ids'' = Inr input_ids"
    and len: "py_len input_ids = Inr n"
    and fresh: "fst ` set model_inputs \<inter> fst ` set kwargs = {}"
  shows "forward_call self model_inputs kwargs =
     (if 1 < n \<and> dict_get model_inputs (speaker_embeddings_key (ad_model_type self)) PNone \<noteq> PNone
      then case py_index (dict_get model_inputs (speaker_embeddings_key (ad_model_type self)) PNone) 0 of
             Inl err \<Rightarrow> Inl err
           | Inr first \<Rightarrow>
               Inr (Generate (AList.update (speaker_embeddings_key (ad_model_type self)) first
                                model_inputs @ kwargs))
      else Inr (Generate (model_inputs @ kwargs)))"
proof -
  let ?key = "speaker_embeddings_key (ad_model_type self)"
  show ?thesis
  proof (cases "1 < n \<and> dict_get model_inputs ?key PNone \<noteq> PNone")
    case False
    then have "narrow_speaker_embeddings self model_inputs = Inr model_inputs"
      using flags ids len by (auto simp: narrow_speaker_embeddings_def)
    with False flags fresh show ?thesis
      by (simp add: forward_call_def call_kwargs_fresh)
  next
    case True
    then obtain v where v: "map_of model_inputs ?key = Some v" "v \<noteq> PNone"
      by (auto simp: dict_get_def split: option.splits)
    from v(1) have present: "?key \<in> fst ` set model_inputs"
      by (auto dest!: map_of_SomeD intro: rev_image_eqI)
    have narrow: "narrow_speaker_embeddings self model_inputs =
            (case py_index v 0 of
               Inl err \<Rightarrow> Inl err
             | Inr first \<Rightarrow> Inr (AList.update ?key first model_inputs))"
      using True v flags ids len
      by (simp add: narrow_speaker_embeddings_def dict_get_def dict_getitem_def)
    have "call_kwargs (AList.update ?key first model_inputs) kwargs =
            Inr (AList.update ?key first model_inputs @ kwargs)" for first
      using fresh present by (intro call_kwargs_fresh) (auto simp: dom_update)
    with True v flags narrow show ?thesis
      by (simp add: forward_call_def dict_get_def split: sum.splits)
  qed
qed

text \<open>
  C1: for a family of the single-embedding list (other than \<^verbatim>\<open>speecht5\<close>), whenever
  \<^verbatim>\<open>_forward\<close> calls \<^verbatim>\<open>generate\<close>: if the batch of \<^verbatim>\<open>input_ids\<close> has more than one
  element and the model inputs have a value other than \<^verbatim>\<open>None\<close> under the family's key,
  \<^verbatim>\<open>generate\<close> receives under that key the first element of the value; if the batch has
  one element, \<^verbatim>\<open>generate\<close> receives the model inputs unchanged.
\<close>

theorem forward_narrows_to_first:
  assumes init: "init e framework m vocoder processor sampling_rate sample_rate_name = Inr self"
    and only_one: "m_model_type m \<in> set ONLY_ONE_SPEAKER_EMBEDDINGS_LIST"
    and generic: "m_model_type m \<noteq> ''speecht5''"
    and ids: "dict_getitem model_inputs ''input_ids'' = Inr input_ids"
    and len: "py_len input_ids = Inr n"
    and call: "forward_call self model_inputs kwargs = Inr c"
  shows "(1 < n \<and> map_of model_inputs (speaker_embeddings_key (m_model_type m)) = Some v
            \<and> v \<noteq> PNone
          \<longrightarrow> (\<exists>first args. py_index v 0 = Inr first \<and> c = Generate args
                 \<and> args = AList.update (speaker_embeddings_key (m_model_type m)) first
                            model_inputs @ kwargs
                 \<and> map_of args (speaker_embeddings_key (m_model_type m)) = Some first))
       \<and> (n = 1
          \<longrightarrow> c = Generate (model_inputs @ kwargs)
              \<and> (\<forall>w. map_of model_inputs (speaker_embeddings_key (m_model_type m)) = Some w
                    \<longrightarrow> map_of (model_inputs @ kwargs)
                          (speaker_embeddings_key (m_model_type m)) = Some w))"
proof -
  let ?key = "speaker_embeddings_key (m_model_type m)"
  have flags: "\<not> ad_is_speecht5 self" "ad_only_one_speaker_embeddings self"
    "ad_model_type self = m_model_type m"
    using init_fields [OF init] only_one generic by simp_all
  have narrowed: "\<exists>first. py_index v 0 = Inr first
      \<and> c = Generate (AList.update ?key first model_inputs @ kwargs)"
    if "1 < n" "map_of model_inputs ?key = Some v" "v \<noteq> PNone"
  proof -
    have "narrow_speaker_embeddings self model_inputs =
            (case py_index v 0 of
               Inl err \<Rightarrow> Inl err
             | Inr first \<Rightarrow> Inr (AList.update ?key first model_inputs))"
      using that flags ids len
      by (simp add: narrow_speaker_embeddings_def dict_get_def dict_getitem_def)
    with call flags show ?thesis
      by (auto simp: forward_call_def split: sum.splits dest: call_kwargs_Inr)
  qed
  have unchanged: "c = Generate (model_inputs @ kwargs)" if "n = 1"
  proof -
    have "narrow_speaker_embeddings self model_inputs = Inr model_inputs"
      using that flags ids len by (simp add: narrow_speaker_embeddings_def)
    with call flags show ?thesis
      by (auto simp: forward_call_def split: sum.splits dest: call_kwargs_Inr)
  qed
  show ?thesis
  proof (intro conjI impI)
    assume "1 < n \<and> map_of model_inputs ?key = Some v \<and> v \<noteq> PNone"
    then obtain first where "py_index v 0 = Inr first"
      "c = Generate (AList.update ?key first model_inputs @ kwargs)"
      using narrowed by blast
    then show "\<exists>first args. py_index v 0 = Inr first \<and> c = Generate args
                 \<and> args = AList.update ?key first model_inputs @ kwargs
                 \<and> map_of args ?key = Some first"
      by (simp add: update_conv')
  next
    assume "n = 1"
    then show "c = Generate (model_inputs @ kwargs)" by (rule unchanged)
  next
    assume "n = 1"
    show "\<forall>w. map_of model_inputs ?key = Some w
             \<longrightarrow> map_of (model_inputs @ kwargs) ?key = Some w"
      by simp
  qed
qed

theorem forward_narrows_to_first_witness:
  "forward_call bark_pipeline
     [(''input_ids'', PList [PList [PInt 1], PList [PInt 2], PList [PInt 3]]),
      (''history_prompt'', PList [PInt 7, PInt 8, PInt 9])]
     [(''do_sample'', PInt 1)] =
     Inr (Generate [(''input_ids'', PList [PList [PInt 1], PList [PInt 2], PList [PInt 3]]),
                    (''history_prompt'', PInt 7), (''do_sample'', PInt 1)])
   \<and> forward_call bark_pipeline
       [(''input_ids'', PList [PList [PInt 1]]),
        (''history_prompt'', PList [PInt 7, PInt 8, PInt 9])]
       [(''do_sample'', PInt 1)] =
       Inr (Generate [(''input_ids'', PList [PList [PInt 1]]),
                      (''history_prompt'', PList [PInt 7, PInt 8, PInt 9]),
                      (''do_sample'', PInt 1)])"
proof -
  let ?batch3 = "[(''input_ids'', PList [PList [PInt 1], PList [PInt 2], PList [PInt 3]]),
                  (''history_prompt'', PList [PInt 7, PInt 8, PInt 9])]"
  let ?batch1 = "[(''input_ids'', PList [PList [PInt 1]]),
                  (''history_prompt'', PList [PInt 7, PInt 8, PInt 9])]"
  let ?kwargs = "[(''do_sample'', PInt 1)]"
  have only_one: "m_model_type bark_model \<in> set ONLY_ONE_SPEAKER_EMBEDDINGS_LIST"
    and generic: "m_model_type bark_model \<noteq> ''speecht5''"
    by (simp_all add: bark_model_def ONLY_ONE_SPEAKER_EMBEDDINGS_LIST_def)
  have key: "speaker_embeddings_key (m_model_type bark_model) = ''history_prompt''"
    by (simp add: speaker_embeddings_key_def SPEAKER_EMBEDDINGS_KEY_MAPPING_def bark_model_def)
  have ids3: "dict_getitem ?batch3 ''input_ids'' =
                Inr (PList [PList [PInt 1], PList [PInt 2], PList [PInt 3]])"
    and ids1: "dict_getitem ?batch1 ''input_ids'' = Inr (PList [PList [PInt 1]])"
    by (simp_all add: dict_getitem_def)
  have len3: "py_len (PList [PList [PInt 1], PList [PInt 2], PList [PInt 3]]) = Inr 3"
    and len1: "py_len (PList [PList [PInt 1]]) = Inr 1"
    by simp_all
  obtain c3 where c3: "forward_call bark_pipeline ?batch3 ?kwargs = Inr c3"
    by (simp add: forward_call_def narrow_speaker_embeddings_def bark_pipeline_def
        speaker_embeddings_key_def SPEAKER_EMBEDDINGS_KEY_MAPPING_def dict_getitem_def
        dict_get_def call_kwargs_def)
  obtain c1 where c1: "forward_call bark_pipeline ?batch1 ?kwargs = Inr c1"
    by (simp add: forward_call_def narrow_speaker_embeddings_def bark_pipeline_def
        speaker_embeddings_key_def SPEAKER_EMBEDDINGS_KEY_MAPPING_def dict_getitem_def
        dict_get_def call_kwargs_def)
  from forward_narrows_to_first [OF bark_pipeline_init only_one generic ids3 len3 c3,
      of "PList [PInt 7, PInt 8, PInt 9]"]
  have "c3 = Generate [(''input_ids'', PList [PList [PInt 1], PList [PInt 2], PList [PInt 3]]),
                       (''history_prompt'', PInt 7), (''do_sample'', PInt 1)]"
    by (simp add: key)
  moreover
  from forward_narrows_to_first [OF bark_pipeline_init only_one generic ids1 len1 c1]
  have "c1 = Generate (?batch1 @ ?kwargs)"
    by simp
  ultimately show ?thesis
    using c3 c1 by simp
qed

section \<open>Parameter routing\<close>

lemma sanitize_parameters_partition:
  "sanitize_parameters generate_kwargs =
     ([(''speaker_embeddings'', dict_get generate_kwargs ''speaker_embeddings'' PNone)],
      filter (\<lambda>(key, val). key \<noteq> ''speaker_embeddings'') generate_kwargs,
      [])"
  by (simp add: sanitize_parameters_def)

lemma forward_passthrough_generic:
  assumes init: "init e framework m vocoder processor sampling_rate sample_rate_name = Inr self"
    and generic: "m_model_type m \<noteq> ''speecht5''"
    and call: "forward_call self model_inputs (fst (snd (sanitize_parameters generate_kwargs)))
                 = Inr c"
    and key: "k \<noteq> ''speaker_embeddings''" and given: "map_of generate_kwargs k = Some v"
  shows "\<exists>args. c = Generate args \<and> map_of args k = Some v"
proof -
  let ?fwd = "filter (\<lambda>(key, val). key \<noteq> ''speaker_embeddings'') generate_kwargs"
  have fwd: "map_of ?fwd k = Some v"
    using key given by (simp add: map_of_filter_key)
  from call init_fields [OF init] generic
  obtain model_inputs' args where
    args: "call_kwargs model_inputs' ?fwd = Inr args" and c: "c = Generate args"
    by (auto simp: forward_call_def sanitize_parameters_partition split: sum.splits)
  from call_kwargs_disjoint [OF args fwd] call_kwargs_Inr [OF args] fwd
  have "map_of args k = Some v"
    by (simp add: map_add_def)
  with c show ?thesis by simp
qed

text \<open>
  C7 fails on the family \<^verbatim>\<open>speecht5\<close>: the parameters are partitioned as the claim says,
  and a keyword such as \<^verbatim>\<open>maxlenratio\<close> is routed to generation time, but \<^verbatim>\<open>_forward\<close>
  calls \<^verbatim>\<open>generate_speech\<close> with the input ids, the conditioning vector and the vocoder
  only, so the keyword does not reach the generation entry point.
\<close>

theorem speecht5_drops_generate_kwargs:
  "init stub_env ''pt'' speecht5_model (VStr ''microsoft/speecht5_hifigan'')
     (Some stub_processor) PNone PNone = Inr speecht5_pipeline
   \<and> sanitize_parameters [(''maxlenratio'', PInt 10)] =
       ([(''speaker_embeddings'', PNone)], [(''maxlenratio'', PInt 10)], [])
   \<and> preprocess stub_env speecht5_pipeline (PStr ''Hello'') PNone [] =
       Inr [(''input_ids'', PList [PList [PInt 1, PInt 2]]),
            (''speaker_embeddings'', PList [PList [PInt 3, PInt 4]])]
   \<and> forward_call speecht5_pipeline
        [(''input_ids'', PList [PList [PInt 1, PInt 2]]),
         (''speaker_embeddings'', PList [PList [PInt 3, PInt 4]])]
        [(''maxlenratio'', PInt 10)] =
       Inr (GenerateSpeech (PList [PList [PInt 1, PInt 2]]) (PList [PList [PInt 3, PInt 4]])
              (VHifiGan (stub_vocoder\<lparr>hg_device := ''cpu''\<rparr>)))"
  using speecht5_pipeline_init
  by (simp add: sanitize_parameters_def dict_get_def preprocess_def call_processor_def
      speecht5_pipeline_def stub_processor_def dict_getitem_def default_speaker_embeddings_def
      stub_env_def stub_load_dataset_def stub_dataset_def stub_torch_tensor_def unsqueeze0_def
      forward_call_def)

end
